theory Spec2Isabelle
  imports Complex_Main "HOL-Library.Word" "HOL-Library.Multiset" "HOL-Library.Product_Lexorder"
begin

section \<open>The edge-based graph loader (contractor/processing\_chain.cpp)\<close>

text \<open>
  \<^verbatim>\<open>Prepare::LoadEdgeExpandedGraph\<close> reads the edge-based edges back and, when a segment
  speed file is given, recomputes every edge weight from the two side-car files.

  Arithmetic of the model: a \<^verbatim>\<open>double\<close> is a real number (IEEE rounding is not modelled),
  the \<^verbatim>\<open>int\<close> and \<^verbatim>\<open>unsigned\<close> weights, penalties and speeds are integers and naturals
  without a width, external node ids (\<^verbatim>\<open>OSMNodeID\<close>) are 64-bit words, and the
  \<^verbatim>\<open>unsigned\<close> counter \<^verbatim>\<open>num_osm_nodes\<close>, whose decrement can wrap around, is a 32-bit word.
\<close>

type_synonym OSMNodeID = "64 word"

text \<open>The fields of an \<^verbatim>\<open>EdgeBasedEdge\<close>, as \<^verbatim>\<open>extractor::WriteEdgeBasedGraph\<close> prints them.\<close>

record EdgeBasedEdge =
  source :: nat
  target :: nat
  edge_id :: nat
  weight :: int
  forward :: bool
  backward :: bool

text \<open>
  \<^verbatim>\<open>std::unordered_map<std::pair<OSMNodeID, OSMNodeID>, unsigned> segment_speed_lookup\<close>:
  a map whose key is the pair in the order given.
\<close>

type_synonym speed_lookup = "OSMNodeID \<times> OSMNodeID \<rightharpoonup> nat"

text \<open>
  The rows of the speed file, as \<^verbatim>\<open>csv_in.read_row(from_node_id, to_node_id, speed)\<close>
  delivers them, and the loop that stores them:
  \<^verbatim>\<open>segment_speed_lookup[std::make_pair(from, to)] = speed\<close>.
\<close>

type_synonym csv_row = "OSMNodeID \<times> OSMNodeID \<times> nat"

fun read_rows :: "csv_row list \<Rightarrow> speed_lookup \<Rightarrow> speed_lookup" where
  "read_rows [] segment_speed_lookup = segment_speed_lookup"
| "read_rows ((from_node_id, to_node_id, speed) # rows) segment_speed_lookup =
     read_rows rows (segment_speed_lookup((from_node_id, to_node_id) \<mapsto> speed))"

definition load_segment_speed_lookup :: "csv_row list \<Rightarrow> speed_lookup" where
  "load_segment_speed_lookup rows = read_rows rows Map.empty"

text \<open>
  One entry of an edge's record in the edge-segment-lookup file, after the leading node
  id: the three values one iteration of the inner loop reads.
\<close>

record segment =
  this_osm_node_id :: OSMNodeID
  segment_length :: real
  segment_weight :: int

text \<open>
  \<^verbatim>\<open>std::max(1, static_cast<int>(std::floor((segment_length * 10.) / (speed / 3.6) + .5)))\<close>.
  With speed 0 the quotient is a division by zero: the double is infinite or not a
  number, its conversion to \<^verbatim>\<open>int\<close> is undefined, and the model has no value for it.
\<close>

definition new_segment_weight :: "real \<Rightarrow> nat \<Rightarrow> int option" where
  "new_segment_weight len speed =
     (if speed = 0 then None
      else Some (max 1 (\<lfloor>(len * 10) / (real speed / 3.6) + 0.5\<rfloor>)))"

text \<open>
  The state of the inner \<^verbatim>\<open>for (; num_osm_nodes != 0; --num_osm_nodes)\<close> loop: the
  counter, the rest of the stream (seen as the entries still to be read), the variables
  the reads fill, the previous node id and the sum so far. \<^verbatim>\<open>new_weight\<close> is \<open>None\<close> from
  the first division by zero on. \<^verbatim>\<open>iterations\<close> is not a variable of the source: it counts
  the executions of the loop body.
\<close>

record loop_state =
  num_osm_nodes :: "32 word"
  stream :: "segment list"
  current :: segment
  previous_osm_node_id :: OSMNodeID
  new_weight :: "int option"
  iterations :: nat

text \<open>
  The three \<^verbatim>\<open>read\<close> calls of one iteration. A read at the end of the stream fails and
  leaves the variables as they were.
\<close>

definition read_segment :: "loop_state \<Rightarrow> loop_state" where
  "read_segment st =
     (case stream st of
        [] \<Rightarrow> st
      | s # rest \<Rightarrow> st\<lparr>stream := rest, current := s\<rparr>)"

text \<open>The weight one segment adds: the \<^verbatim>\<open>if (speed_iter != segment_speed_lookup.end())\<close>.\<close>

definition segment_contribution :: "speed_lookup \<Rightarrow> OSMNodeID \<Rightarrow> segment \<Rightarrow> int option" where
  "segment_contribution segment_speed_lookup previous s =
     (case segment_speed_lookup (previous, this_osm_node_id s) of
        Some speed \<Rightarrow> new_segment_weight (segment_length s) speed
      | None \<Rightarrow> Some (segment_weight s))"

definition add_weight :: "int option \<Rightarrow> int option \<Rightarrow> int option" where
  "add_weight a b = (case (a, b) of (Some x, Some y) \<Rightarrow> Some (x + y) | _ \<Rightarrow> None)"

definition loop_body :: "speed_lookup \<Rightarrow> loop_state \<Rightarrow> loop_state" where
  "loop_body segment_speed_lookup st =
     (let st1 = read_segment st;
          w = segment_contribution segment_speed_lookup (previous_osm_node_id st1) (current st1)
      in st1\<lparr>new_weight := add_weight (new_weight st1) w,
              previous_osm_node_id := this_osm_node_id (current st1),
              iterations := Suc (iterations st1)\<rparr>)"

function segment_loop :: "speed_lookup \<Rightarrow> loop_state \<Rightarrow> loop_state" where
  "segment_loop segment_speed_lookup st =
     (if num_osm_nodes st \<noteq> 0
      then segment_loop segment_speed_lookup
             ((loop_body segment_speed_lookup st)\<lparr>num_osm_nodes := num_osm_nodes st - 1\<rparr>)
      else st)"
  by pat_completeness auto
termination
  by (relation "measure (\<lambda>(m, st). unat (num_osm_nodes st))")
     (auto simp: unat_minus_one unat_gt_0)

declare segment_loop.simps [simp del]

text \<open>
  The body of \<^verbatim>\<open>if (update_edge_weights)\<close> for one edge. The reads before the loop give
  \<^verbatim>\<open>fixed_penalty\<close>, the count and the leading node id; the count is decremented once
  before the loop. \<^verbatim>\<open>this_osm_node_id\<close>, \<^verbatim>\<open>segment_length\<close> and \<^verbatim>\<open>segment_weight\<close> are
  declared without a value: what they hold before the first read is the parameter
  \<open>indeterminate\<close>.
\<close>

definition run_segment_loop ::
  "speed_lookup \<Rightarrow> segment \<Rightarrow> 32 word \<Rightarrow> OSMNodeID \<Rightarrow> segment list \<Rightarrow> loop_state" where
  "run_segment_loop segment_speed_lookup indeterminate num first rest =
     segment_loop segment_speed_lookup
       \<lparr>num_osm_nodes = num - 1, stream = rest, current = indeterminate,
        previous_osm_node_id = first, new_weight = Some 0, iterations = 0\<rparr>"

text \<open>
  What the loader reads for one edge: the edge from the .edges file, its penalty from
  the edge-penalties file, and its record from the edge-segment-lookup file (the count,
  the leading node id, and the entries that follow).
\<close>

record edge_input =
  inbuffer :: EdgeBasedEdge
  fixed_penalty :: nat
  record_num_osm_nodes :: "32 word"
  first_osm_node_id :: OSMNodeID
  segments :: "segment list"

text \<open>\<^verbatim>\<open>inbuffer.weight = fixed_penalty + new_weight\<close>; no edge when the sum has no value.\<close>

definition update_edge :: "speed_lookup \<Rightarrow> segment \<Rightarrow> edge_input \<Rightarrow> EdgeBasedEdge option" where
  "update_edge segment_speed_lookup indeterminate x =
     (case new_weight (run_segment_loop segment_speed_lookup indeterminate
                         (record_num_osm_nodes x) (first_osm_node_id x) (segments x)) of
        None \<Rightarrow> None
      | Some w \<Rightarrow> Some ((inbuffer x)\<lparr>weight := int (fixed_penalty x) + w\<rparr>))"

text \<open>
  The outer loop \<^verbatim>\<open>for (; number_of_edges > 0; --number_of_edges)\<close>, over the edges of the
  file in their order, the three files read in step. \<^verbatim>\<open>update_edge_weights\<close> is
  \<^verbatim>\<open>segment_speed_filename != ""\<close>. The model gives every edge the entries of its own
  record; in the source a record whose count is not the number of its node ids shifts the
  reads of the edges after it, and the statements about a whole file are about well-formed
  records.
\<close>

fun read_edges ::
  "bool \<Rightarrow> speed_lookup \<Rightarrow> segment \<Rightarrow> edge_input list \<Rightarrow> EdgeBasedEdge list option" where
  "read_edges update_edge_weights segment_speed_lookup indeterminate [] = Some []"
| "read_edges update_edge_weights segment_speed_lookup indeterminate (x # xs) =
     (case (if update_edge_weights then update_edge segment_speed_lookup indeterminate x
            else Some (inbuffer x)) of
        None \<Rightarrow> None
      | Some e \<Rightarrow>
          (case read_edges update_edge_weights segment_speed_lookup indeterminate xs of
             None \<Rightarrow> None
           | Some es \<Rightarrow> Some (e # es)))"

text \<open>
  \<^verbatim>\<open>LoadEdgeExpandedGraph\<close>: the speed table is filled only when a speed file is given
  (\<open>segment_speed_file\<close> is \<open>None\<close> for the empty file name, else the rows of the file), and
  every edge read is appended with \<^verbatim>\<open>emplace_back\<close> to the list as
  \<^verbatim>\<open>edge_based_edge_list.resize(number_of_edges)\<close> left it, the parameter \<open>resized\<close>.
\<close>

definition LoadEdgeExpandedGraph ::
  "csv_row list option \<Rightarrow> segment \<Rightarrow> EdgeBasedEdge list \<Rightarrow> edge_input list
     \<Rightarrow> EdgeBasedEdge list option" where
  "LoadEdgeExpandedGraph segment_speed_file indeterminate resized edges =
     (let update_edge_weights = (segment_speed_file \<noteq> None);
          segment_speed_lookup =
            (case segment_speed_file of
               None \<Rightarrow> Map.empty
             | Some rows \<Rightarrow> load_segment_speed_lookup rows)
      in map_option (\<lambda>es. resized @ es)
           (read_edges update_edge_weights segment_speed_lookup indeterminate edges))"

subsection \<open>The weight the specification gives an edge\<close>

text \<open>
  Section 4.3 of the specification, in its words: the segments of an edge are the pairs
  of consecutive node ids of its record; a segment found in the table weighs
  \<open>max(1, floor((L * 10) / (speed / 3.6) + 0.5))\<close>, any other keeps its stored weight;
  the edge weighs its penalty plus its segments.
\<close>

definition spec_segment_weight :: "speed_lookup \<Rightarrow> OSMNodeID \<times> segment \<Rightarrow> int" where
  "spec_segment_weight table = (\<lambda>(a, s).
     (case table (a, this_osm_node_id s) of
        Some speed \<Rightarrow> max 1 \<lfloor>(segment_length s * 10) / (real speed / 3.6) + 0.5\<rfloor>
      | None \<Rightarrow> segment_weight s))"

definition spec_segments :: "edge_input \<Rightarrow> (OSMNodeID \<times> segment) list" where
  "spec_segments x = zip (first_osm_node_id x # map this_osm_node_id (segments x)) (segments x)"

definition spec_weight :: "speed_lookup \<Rightarrow> edge_input \<Rightarrow> int" where
  "spec_weight table x =
     int (fixed_penalty x) + sum_list (map (spec_segment_weight table) (spec_segments x))"

text \<open>A record is well formed when its count is the number of its node ids.\<close>

definition well_formed :: "edge_input \<Rightarrow> bool" where
  "well_formed x \<longleftrightarrow> unat (record_num_osm_nodes x) = Suc (length (segments x))"

text \<open>
  The same section read with its sentence on the key: the key is the unordered pair, a
  segment \<open>(a, b)\<close> is overridden when \<open>(a, b)\<close> or \<open>(b, a)\<close> is in the table.
\<close>

definition unordered_segment_weight :: "speed_lookup \<Rightarrow> OSMNodeID \<times> segment \<Rightarrow> int" where
  "unordered_segment_weight table = (\<lambda>(a, s).
     (case table (a, this_osm_node_id s) of
        Some speed \<Rightarrow> max 1 \<lfloor>(segment_length s * 10) / (real speed / 3.6) + 0.5\<rfloor>
      | None \<Rightarrow>
          (case table (this_osm_node_id s, a) of
             Some speed \<Rightarrow> max 1 \<lfloor>(segment_length s * 10) / (real speed / 3.6) + 0.5\<rfloor>
           | None \<Rightarrow> segment_weight s)))"

definition unordered_weight :: "speed_lookup \<Rightarrow> edge_input \<Rightarrow> int" where
  "unordered_weight table x =
     int (fixed_penalty x) + sum_list (map (unordered_segment_weight table) (spec_segments x))"

text \<open>The speeds of the rows of the file written for the pair \<open>(a, b)\<close> in this order.\<close>

definition speeds_of_rows :: "OSMNodeID \<Rightarrow> OSMNodeID \<Rightarrow> csv_row list \<Rightarrow> nat list" where
  "speeds_of_rows a b rows = map (\<lambda>(f, t, speed). speed) (filter (\<lambda>(f, t, speed). f = a \<and> t = b) rows)"

subsection \<open>A concrete file\<close>

text \<open>
  A speed file with the row \<open>(1, 2, 72)\<close> and an edge with penalty 7 over the nodes 1, 2, 3:
  the segment \<open>(1, 2)\<close> of 100 m with stored weight 36, the segment \<open>(2, 3)\<close> of 50 m with
  stored weight 20.
\<close>

definition example_edge :: EdgeBasedEdge where
  "example_edge = \<lparr>source = 0, target = 1, edge_id = 0, weight = 63, forward = True, backward = False\<rparr>"

definition example_input :: edge_input where
  "example_input =
     \<lparr>inbuffer = example_edge, fixed_penalty = 7, record_num_osm_nodes = 3, first_osm_node_id = 1,
      segments = [\<lparr>this_osm_node_id = 2, segment_length = 100, segment_weight = 36\<rparr>,
                  \<lparr>this_osm_node_id = 3, segment_length = 50, segment_weight = 20\<rparr>]\<rparr>"

definition no_segment :: segment where
  "no_segment = \<lparr>this_osm_node_id = 0, segment_length = 0, segment_weight = 0\<rparr>"

section \<open>The static-graph serializer (contractor/processing\_chain.cpp)\<close>

text \<open>
  \<^verbatim>\<open>Prepare::WriteContractedGraph\<close> sorts the contracted edges, builds the node array of the
  static graph and writes the .hsgr file. Node ids and edge indices (\<^verbatim>\<open>unsigned\<close>) are
  natural numbers. The model is the build with \<^verbatim>\<open>NDEBUG\<close>: the \<^verbatim>\<open>BOOST_ASSERT\<close>s and the
  block under \<^verbatim>\<open>#ifndef NDEBUG\<close> are compiled out.
\<close>

text \<open>
  A \<^verbatim>\<open>QueryEdge\<close> and its \<^verbatim>\<open>EdgeData\<close>. The function reads \<^verbatim>\<open>source\<close>, \<^verbatim>\<open>target\<close> and \<^verbatim>\<open>data\<close>
  of an edge and \<^verbatim>\<open>distance\<close>, \<^verbatim>\<open>forward\<close> and \<^verbatim>\<open>backward\<close> of its data; the other fields of
  the data are those of the specification's data model. The names carry a suffix where
  an \<^verbatim>\<open>EdgeBasedEdge\<close> has a field of the same name.
\<close>

record EdgeData =
  distance :: int
  id_ed :: nat
  shortcut :: bool
  forward_ed :: bool
  backward_ed :: bool

record QueryEdge =
  source_qe :: nat
  target_qe :: nat
  data_qe :: EdgeData




text \<open>
  The lambda that computes \<^verbatim>\<open>max_used_node_id\<close>:
  \<^verbatim>\<open>tmp_max = std::max(tmp_max, edge.source); tmp_max = std::max(tmp_max, edge.target)\<close>.
\<close>

definition max_used_node_id :: "QueryEdge list \<Rightarrow> nat" where
  "max_used_node_id contracted_edge_list =
     fold (\<lambda>edge tmp_max. max (max tmp_max (source_qe edge)) (target_qe edge))
       contracted_edge_list 0"

text \<open>
  The inner loop
  \<^verbatim>\<open>while ((edge < contracted_edge_count) && (contracted_edge_list[edge].source == node)) ++edge\<close>.
\<close>

function advance :: "QueryEdge list \<Rightarrow> nat \<Rightarrow> nat \<Rightarrow> nat" where
  "advance contracted_edge_list node edge =
     (if edge < length contracted_edge_list \<and> source_qe (contracted_edge_list ! edge) = node
      then advance contracted_edge_list node (Suc edge)
      else edge)"
  by pat_completeness auto
termination
  by (relation "measure (\<lambda>(es, node, edge). length es - edge)") auto

declare advance.simps [simp del]

text \<open>
  The loop \<^verbatim>\<open>for (const auto node : osrm::irange(0u, max_used_node_id + 1))\<close> over the
  state \<open>(edge, position, node_array)\<close>, the node array as the list of its
  \<^verbatim>\<open>first_edge\<close> fields. A write \<^verbatim>\<open>node_array[node]\<close> outside the vector is undefined; the model
  has no result then.
\<close>

fun first_edge_loop ::
  "QueryEdge list \<Rightarrow> nat list \<Rightarrow> nat \<times> nat \<times> nat list \<Rightarrow> (nat \<times> nat \<times> nat list) option" where
  "first_edge_loop contracted_edge_list [] st = Some st"
| "first_edge_loop contracted_edge_list (node # nodes) (edge, position, node_array) =
     (let last_edge = edge;
          edge = advance contracted_edge_list node edge
      in if node < length node_array
         then first_edge_loop contracted_edge_list nodes
                (edge, position + (edge - last_edge), node_array[node := position])
         else None)"

text \<open>
  The loop over \<^verbatim>\<open>osrm::irange<unsigned>(max_used_node_id + 1, node_array.size())\<close>:
  \<^verbatim>\<open>node_array[sentinel_counter].first_edge = contracted_edge_count\<close>.
\<close>

definition sentinel_loop :: "nat \<Rightarrow> nat \<Rightarrow> nat list \<Rightarrow> nat list" where
  "sentinel_loop max_used contracted_edge_count node_array =
     fold (\<lambda>sentinel_counter na. na[sentinel_counter := contracted_edge_count])
       [max_used + 1 ..< length node_array] node_array"

text \<open>
  The node array: \<^verbatim>\<open>node_array.resize(max_node_id + 2)\<close> gives entries with the value 0,
  then the two loops run.
\<close>

definition build_node_array :: "nat \<Rightarrow> QueryEdge list \<Rightarrow> nat list option" where
  "build_node_array max_node_id contracted_edge_list =
     (let contracted_edge_count = length contracted_edge_list;
          max_used = max_used_node_id contracted_edge_list;
          node_array = replicate (max_node_id + 2) 0
      in case first_edge_loop contracted_edge_list [0 ..< max_used + 1] (0, 0, node_array) of
           None \<Rightarrow> None
         | Some (edge, position, node_array) \<Rightarrow>
             Some (sentinel_loop max_used contracted_edge_count node_array))"



subsection \<open>What the specification says of the order and of the node array\<close>




text \<open>Two edges of the same source and target, and a third edge.\<close>

definition edge_a :: QueryEdge where
  "edge_a = \<lparr>source_qe = 1, target_qe = 2,
     data_qe = \<lparr>distance = 5, id_ed = 0, shortcut = False, forward_ed = True, backward_ed = False\<rparr>\<rparr>"

definition edge_b :: QueryEdge where
  "edge_b = \<lparr>source_qe = 1, target_qe = 2,
     data_qe = \<lparr>distance = 7, id_ed = 1, shortcut = False, forward_ed = False, backward_ed = True\<rparr>\<rparr>"

definition edge_c :: QueryEdge where
  "edge_c = \<lparr>source_qe = 0, target_qe = 2,
     data_qe = \<lparr>distance = 3, id_ed = 2, shortcut = False, forward_ed = True, backward_ed = True\<rparr>\<rparr>"


section \<open>The core marker and the driver of prepare (contractor/processing\_chain.cpp)\<close>

subsection \<open>WriteCoreNodeMarker\<close>

text \<open>
  \<^verbatim>\<open>Prepare::WriteCoreNodeMarker\<close> copies the flags into a \<^verbatim>\<open>std::vector<char>\<close> of the same
  size,
  \<^verbatim>\<open>unpacked_bool_flags[i] = is_core_node[i] ? 1 : 0\<close>,
  and writes the size as an \<^verbatim>\<open>unsigned\<close> and then the vector, \<^verbatim>\<open>sizeof(char)\<close> times its
  size bytes. The file is the size field and the bytes that follow it.
\<close>

definition unpack_loop :: "bool list \<Rightarrow> 8 word list" where
  "unpack_loop is_core_node =
     fold (\<lambda>i unpacked_bool_flags.
             unpacked_bool_flags[i := (if is_core_node ! i then 1 else 0)])
       [0 ..< length is_core_node] (replicate (length is_core_node) 0)"

record core_file =
  core_size :: "32 word"
  core_bytes :: "8 word list"

definition WriteCoreNodeMarker :: "bool list \<Rightarrow> core_file" where
  "WriteCoreNodeMarker in_is_core_node =
     (let unpacked_bool_flags = unpack_loop in_is_core_node
      in \<lparr>core_size = of_nat (length unpacked_bool_flags), core_bytes = unpacked_bool_flags\<rparr>)"

text \<open>
  The specification's words for the file: a bitmap, one bit per node, padded to whole
  bytes. Eight flags make a byte, the first flag its lowest bit; a last group of fewer
  than eight is filled with zeros.
\<close>

definition byte_of_bits :: "bool list \<Rightarrow> 8 word" where
  "byte_of_bits bits = foldr (\<lambda>b w. (if b then 1 else 0) + 2 * w) bits 0"

function bitmap :: "bool list \<Rightarrow> 8 word list" where
  "bitmap flags = (if flags = [] then [] else byte_of_bits (take 8 flags) # bitmap (drop 8 flags))"
  by pat_completeness auto
termination
  by (relation "measure length") auto

declare bitmap.simps [simp del]

subsection \<open>Run\<close>







section \<open>The driver of extract (extractor/extractor.cpp)\<close>

text \<open>
  \<^verbatim>\<open>extractor::run\<close>, as far as its files and its exit code go. What the collaborators do
  is given: \<open>setup_exception\<close> is the message of an exception thrown before the timestamp
  is written (the scripting environment, the reader, \<^verbatim>\<open>source_function\<close>),
  \<open>parsing_exception\<close> one thrown after that and before parsing ends, \<open>all_edges_list\<close> the edges
  the callbacks have collected when parsing ends, \<open>prepare_data\<close> and \<open>expansion\<close> the files
  \<^verbatim>\<open>PrepareData\<close> and the second \<^verbatim>\<open>try\<close> block create, with the message of the exception
  that ends them, if one does. The result is the exit code, the files created, and the
  lines logged at \<^verbatim>\<open>logWARNING\<close>.
\<close>

datatype output_file =
    timestamp_file
  | osrm_file
  | restrictions_file
  | names_file
  | expansion_file string

record 'e extraction =
  setup_exception :: "string option"
  parsing_exception :: "string option"
  all_edges_list :: "'e list"
  prepare_data :: "output_file list \<times> string option"
  expansion :: "output_file list \<times> string option"

record run_result =
  exit_code :: int
  files_created :: "output_file list"
  warnings :: "string list"

definition empty_message :: string where
  "empty_message = ''The input data is empty, exiting.''"

definition run :: "'e extraction \<Rightarrow> run_result" where
  "run x =
     (case setup_exception x of
        Some what \<Rightarrow> \<lparr>exit_code = 1, files_created = [], warnings = [what]\<rparr>
      | None \<Rightarrow>
     (case parsing_exception x of
        Some what \<Rightarrow> \<lparr>exit_code = 1, files_created = [timestamp_file], warnings = [what]\<rparr>
      | None \<Rightarrow>
     if all_edges_list x = []
     then \<lparr>exit_code = 1, files_created = [timestamp_file], warnings = [empty_message]\<rparr>
     else
     (case prepare_data x of
        (files, Some what) \<Rightarrow>
          \<lparr>exit_code = 1, files_created = timestamp_file # files, warnings = [what]\<rparr>
      | (files, None) \<Rightarrow>
     (case expansion x of
        (files', Some what) \<Rightarrow>
          \<lparr>exit_code = 1, files_created = timestamp_file # files @ files', warnings = [what]\<rparr>
      | (files', None) \<Rightarrow>
          \<lparr>exit_code = 0, files_created = timestamp_file # files @ files', warnings = []\<rparr>))))"

text \<open>An input without an edge that fails nowhere else.\<close>

definition empty_input :: "unit extraction" where
  "empty_input =
     \<lparr>setup_exception = None, parsing_exception = None, all_edges_list = [],
      prepare_data = ([osrm_file, restrictions_file, names_file], None),
      expansion = ([], None)\<rparr>"

section \<open>The component labeler (extractor/extractor.cpp)\<close>

text \<open>
  \<^verbatim>\<open>extractor::FindComponents\<close> builds a directed graph on the edge-based node ids
  \<open>0, ..., max_edge_id\<close>, runs \<^verbatim>\<open>TarjanSCC\<close> on it and labels every \<^verbatim>\<open>EdgeBasedNode\<close>. Of an
  \<^verbatim>\<open>EdgeBasedNode\<close> the function reads the two ids and writes the two fields of
  \<^verbatim>\<open>component\<close>. The sentinel \<^verbatim>\<open>SPECIAL_NODEID\<close> is declared outside this file: it is a
  parameter.
\<close>

record EdgeBasedNode =
  forward_edge_based_node_id :: nat
  reverse_edge_based_node_id :: nat
  component_id :: nat
  component_is_tiny :: bool

text \<open>An \<^verbatim>\<open>InputEdge\<close> is its source and its target; its data is empty.\<close>

type_synonym InputEdge = "nat \<times> nat"

text \<open>The first loop: an edge for each direction an edge-based edge is open in.\<close>

definition edges_of_edge :: "EdgeBasedEdge \<Rightarrow> InputEdge list" where
  "edges_of_edge edge =
     (if forward edge then [(source edge, target edge)] else [])
     @ (if backward edge then [(target edge, source edge)] else [])"

text \<open>The second loop, "connect forward and backward nodes of each edge".\<close>

definition edges_of_node :: "nat \<Rightarrow> EdgeBasedNode \<Rightarrow> InputEdge list" where
  "edges_of_node SPECIAL_NODEID node =
     (if reverse_edge_based_node_id node \<noteq> SPECIAL_NODEID
      then [(forward_edge_based_node_id node, reverse_edge_based_node_id node),
            (reverse_edge_based_node_id node, forward_edge_based_node_id node)]
      else [])"

text \<open>
  The edges handed to the graph: both loops, then \<^verbatim>\<open>tbb::parallel_sort\<close>, \<^verbatim>\<open>std::unique\<close> and
  \<^verbatim>\<open>resize\<close>. \<^verbatim>\<open>operator<\<close> of an \<^verbatim>\<open>InputEdge\<close> compares the source and then the target, and
  edges it does not tell apart are equal, so the sorted list is the one sorted list there
  is.
\<close>

definition component_edges :: "nat \<Rightarrow> EdgeBasedEdge list \<Rightarrow> EdgeBasedNode list \<Rightarrow> InputEdge list" where
  "component_edges SPECIAL_NODEID input_edge_list input_nodes =
     remdups_adj (sort (concat (map edges_of_edge input_edge_list)
                        @ concat (map (edges_of_node SPECIAL_NODEID) input_nodes)))"

text \<open>
  What \<^verbatim>\<open>FindComponents\<close> asks of \<^verbatim>\<open>component_search\<close> after \<^verbatim>\<open>run()\<close>:
  \<^verbatim>\<open>get_component_id\<close> of a node and \<^verbatim>\<open>get_component_size\<close> of a component id.
\<close>

record TarjanSCC =
  get_component_id :: "nat \<Rightarrow> nat"
  get_component_size :: "nat \<Rightarrow> nat"

text \<open>
  The last loop, for one node:
  \<^verbatim>\<open>node.component.is_tiny = component_size < 1000; node.component.id = 1 + forward_component\<close>.
\<close>

definition label_node :: "TarjanSCC \<Rightarrow> EdgeBasedNode \<Rightarrow> EdgeBasedNode" where
  "label_node component_search node =
     (let forward_component = get_component_id component_search (forward_edge_based_node_id node);
          component_size = get_component_size component_search forward_component
      in node\<lparr>component_is_tiny := component_size < 1000,
              component_id := 1 + forward_component\<rparr>)"

text \<open>
  \<^verbatim>\<open>FindComponents\<close>. \<open>tarjan\<close> stands for \<^verbatim>\<open>TarjanSCC<UncontractedGraph>\<close>: it takes the graph,
  \<open>max_edge_id + 1\<close> nodes and the edges, and gives \<^verbatim>\<open>component_search\<close> as \<^verbatim>\<open>run()\<close> leaves it.
\<close>

definition FindComponents ::
  "nat \<Rightarrow> (nat \<Rightarrow> InputEdge list \<Rightarrow> TarjanSCC) \<Rightarrow> nat \<Rightarrow> EdgeBasedEdge list \<Rightarrow> EdgeBasedNode list
     \<Rightarrow> EdgeBasedNode list" where
  "FindComponents SPECIAL_NODEID tarjan max_edge_id input_edge_list input_nodes =
     (let edges = component_edges SPECIAL_NODEID input_edge_list input_nodes;
          component_search = tarjan (max_edge_id + 1) edges
      in map (label_node component_search) input_nodes)"

subsection \<open>Strongly connected components\<close>

text \<open>
  Modelled from the spec: \<^verbatim>\<open>TarjanSCC\<close> (algorithms/tarjan\_scc.hpp) is not among the
  sources. The specification: it "runs Tarjan's strongly-connected-components algorithm"
  on the graph, with "a component id per edge-based node" as output. Two nodes are
  strongly connected when each reaches the other along the edges; the component of a node
  is the nodes of the graph strongly connected to it. A result is a labelling by strongly
  connected components when two nodes of the graph have the same id exactly when they are
  strongly connected, and the size of a node's id is the size of its component.
\<close>

definition reaches :: "InputEdge list \<Rightarrow> nat \<Rightarrow> nat \<Rightarrow> bool" where
  "reaches edges u v \<longleftrightarrow> u = v \<or> (u, v) \<in> (set edges)\<^sup>+"

definition strongly_connected :: "InputEdge list \<Rightarrow> nat \<Rightarrow> nat \<Rightarrow> bool" where
  "strongly_connected edges u v \<longleftrightarrow> reaches edges u v \<and> reaches edges v u"

definition component :: "nat \<Rightarrow> InputEdge list \<Rightarrow> nat \<Rightarrow> nat list" where
  "component number_of_nodes edges u = filter (strongly_connected edges u) [0 ..< number_of_nodes]"

definition labels_components :: "nat \<Rightarrow> InputEdge list \<Rightarrow> TarjanSCC \<Rightarrow> bool" where
  "labels_components number_of_nodes edges component_search \<longleftrightarrow>
     (\<forall>u \<in> set [0 ..< number_of_nodes]. \<forall>v \<in> set [0 ..< number_of_nodes].
        (get_component_id component_search u = get_component_id component_search v)
          = strongly_connected edges u v)
     \<and> (\<forall>u \<in> set [0 ..< number_of_nodes].
          get_component_size component_search (get_component_id component_search u)
            = length (component number_of_nodes edges u))"

text \<open>
  The augmented graph in the words of the specification: the directed edge-based graph
  and, for every node whose reverse id is not the sentinel, links both ways between its
  two ids.
\<close>

definition augmented_graph :: "nat \<Rightarrow> EdgeBasedEdge list \<Rightarrow> EdgeBasedNode list \<Rightarrow> InputEdge set" where
  "augmented_graph SPECIAL_NODEID input_edge_list input_nodes =
     {(source e, target e) | e. e \<in> set input_edge_list \<and> forward e}
     \<union> {(target e, source e) | e. e \<in> set input_edge_list \<and> backward e}
     \<union> {(forward_edge_based_node_id n, reverse_edge_based_node_id n) | n.
          n \<in> set input_nodes \<and> reverse_edge_based_node_id n \<noteq> SPECIAL_NODEID}
     \<union> {(reverse_edge_based_node_id n, forward_edge_based_node_id n) | n.
          n \<in> set input_nodes \<and> reverse_edge_based_node_id n \<noteq> SPECIAL_NODEID}"

text \<open>
  A small input: the ids 0, 1, 2; a one-way segment with the id 0, a two-way segment with
  the ids 1 and 2, and a turn from the first into the second. The components are
  \<open>{0}\<close> and \<open>{1, 2}\<close>.
\<close>

definition turn_0_1 :: EdgeBasedEdge where
  "turn_0_1 = \<lparr>source = 0, target = 1, edge_id = 0, weight = 10, forward = True, backward = False\<rparr>"

definition one_way :: EdgeBasedNode where
  "one_way = \<lparr>forward_edge_based_node_id = 0, reverse_edge_based_node_id = 4294967295,
     component_id = 0, component_is_tiny = False\<rparr>"

definition two_way :: EdgeBasedNode where
  "two_way = \<lparr>forward_edge_based_node_id = 1, reverse_edge_based_node_id = 2,
     component_id = 0, component_is_tiny = False\<rparr>"

definition example_search :: TarjanSCC where
  "example_search =
     \<lparr>get_component_id = (\<lambda>v. if v = 0 then 1 else 0),
      get_component_size = (\<lambda>c. if c = 0 then 2 else 1)\<rparr>"

section \<open>Properties of the loader\<close>

subsection \<open>The inner loop\<close>

lemma segment_loop_zero: "num_osm_nodes st = 0 \<Longrightarrow> segment_loop t st = st"
  by (subst segment_loop.simps) simp

lemma segment_loop_step:
  "num_osm_nodes st \<noteq> 0 \<Longrightarrow>
   segment_loop t st = segment_loop t ((loop_body t st)\<lparr>num_osm_nodes := num_osm_nodes st - 1\<rparr>)"
  by (subst segment_loop.simps) simp

lemma iterations_loop_body [simp]: "iterations (loop_body t st) = Suc (iterations st)"
  by (simp add: loop_body_def read_segment_def Let_def split: list.splits)

text \<open>The loop body runs once for every value the counter passes through.\<close>

lemma segment_loop_iterations:
  "iterations (segment_loop t st) = iterations st + unat (num_osm_nodes st)"
proof (induction t st rule: segment_loop.induct)
  case (1 t st)
  show ?case
  proof (cases "num_osm_nodes st = 0")
    case True
    then show ?thesis by (simp add: segment_loop_zero)
  next
    case False
    have "iterations (segment_loop t st) =
          iterations (segment_loop t ((loop_body t st)\<lparr>num_osm_nodes := num_osm_nodes st - 1\<rparr>))"
      using False by (simp add: segment_loop_step)
    also have "\<dots> = Suc (iterations st) + unat (num_osm_nodes st - 1)"
      using 1 False by simp
    also have "\<dots> = iterations st + unat (num_osm_nodes st)"
      using False by (simp add: unat_minus_one unat_gt_0)
    finally show ?thesis .
  qed
qed

lemma segment_loop_exit: "num_osm_nodes (segment_loop t st) = 0"
proof (induction t st rule: segment_loop.induct)
  case (1 t st)
  then show ?case
    by (cases "num_osm_nodes st = 0") (simp_all add: segment_loop_zero segment_loop_step)
qed

text \<open>
  On a stream that starts with the entries the counter announces, and a table without a
  zero speed, the loop adds up the weights of the specification.
\<close>

lemma segment_loop_sum:
  assumes "0 \<notin> ran t" "unat n = length segs"
  shows "segment_loop t \<lparr>num_osm_nodes = n, stream = segs @ rest, current = c,
           previous_osm_node_id = p, new_weight = Some w, iterations = k\<rparr> =
         \<lparr>num_osm_nodes = 0, stream = rest, current = last (c # segs),
           previous_osm_node_id = last (p # map this_osm_node_id segs),
           new_weight = Some (w + sum_list (map (spec_segment_weight t)
                                  (zip (p # map this_osm_node_id segs) segs))),
           iterations = k + length segs\<rparr>"
  using assms
proof (induction segs arbitrary: n c p w k)
  case Nil
  then show ?case by (simp add: unat_eq_zero segment_loop_zero)
next
  case (Cons s segs)
  let ?st = "\<lparr>num_osm_nodes = n, stream = (s # segs) @ rest, current = c,
           previous_osm_node_id = p, new_weight = Some w, iterations = k\<rparr>"
  from Cons.prems have n0: "n \<noteq> 0" by auto
  from Cons.prems n0 have len: "unat (n - 1) = length segs"
    by (simp add: unat_minus_one)
  have contrib: "segment_contribution t p s = Some (spec_segment_weight t (p, s))"
    using Cons.prems(1)
    by (auto simp: segment_contribution_def spec_segment_weight_def new_segment_weight_def
        ran_def split: option.splits)
  have step: "(loop_body t ?st)\<lparr>num_osm_nodes := num_osm_nodes ?st - 1\<rparr> =
        \<lparr>num_osm_nodes = n - 1, stream = segs @ rest, current = s,
           previous_osm_node_id = this_osm_node_id s,
           new_weight = Some (w + spec_segment_weight t (p, s)), iterations = Suc k\<rparr>"
    by (simp add: loop_body_def read_segment_def Let_def contrib add_weight_def)
  have "segment_loop t ?st =
        segment_loop t \<lparr>num_osm_nodes = n - 1, stream = segs @ rest, current = s,
           previous_osm_node_id = this_osm_node_id s,
           new_weight = Some (w + spec_segment_weight t (p, s)), iterations = Suc k\<rparr>"
    using segment_loop_step [of ?st t] n0 by (simp only: step) simp
  also have "\<dots> = \<lparr>num_osm_nodes = 0, stream = rest, current = last (s # segs),
           previous_osm_node_id = last (this_osm_node_id s # map this_osm_node_id segs),
           new_weight = Some (w + spec_segment_weight t (p, s) + sum_list (map (spec_segment_weight t)
                                  (zip (this_osm_node_id s # map this_osm_node_id segs) segs))),
           iterations = Suc k + length segs\<rparr>"
    by (rule Cons.IH [OF Cons.prems(1) len])
  finally show ?case by (simp add: add.assoc)
qed

lemma update_edge_spec:
  assumes "0 \<notin> ran t" "well_formed x"
  shows "update_edge t ind x = Some ((inbuffer x)\<lparr>weight := spec_weight t x\<rparr>)"
proof -
  from assms(2) have "record_num_osm_nodes x \<noteq> 0"
    by (auto simp: well_formed_def)
  with assms(2) have len: "unat (record_num_osm_nodes x - 1) = length (segments x)"
    by (simp add: well_formed_def unat_minus_one)
  show ?thesis
    using segment_loop_sum [OF assms(1) len, of "[]" ind "first_osm_node_id x" 0 0]
    by (simp add: update_edge_def run_segment_loop_def spec_weight_def spec_segments_def)
qed


text \<open>Without a speed file the edges are appended as they are read.\<close>

lemma read_edges_unchanged: "read_edges False t ind edges = Some (map inbuffer edges)"
  by (induction edges) simp_all

lemma LoadEdgeExpandedGraph_without_speed_file:
  "LoadEdgeExpandedGraph None indeterminate resized edges = Some (resized @ map inbuffer edges)"
  by (simp add: LoadEdgeExpandedGraph_def read_edges_unchanged)

subsection \<open>The example file\<close>

lemma lookup_example [simp]:
  "load_segment_speed_lookup [(1, 2, 72)] = [(1, 2) \<mapsto> 72]"
  by (simp add: load_segment_speed_lookup_def)

lemma inbuffer_example: "inbuffer example_input = example_edge"
  by (simp add: example_input_def)

lemma well_formed_example [simp]: "well_formed example_input"
  by (simp add: well_formed_def example_input_def)

lemma spec_weight_example [simp]: "spec_weight [(1, 2) \<mapsto> 72] example_input = 77"
  by (simp add: spec_weight_def spec_segments_def spec_segment_weight_def example_input_def)

subsection \<open>Claim C1\<close>



subsection \<open>Claim C10\<close>

text \<open>
  C10. For a record whose node count N is at least 1, the segment-reading loop of an
  edge ends after exactly N - 1 executions of its body, whatever the stream holds: one
  node id is read before the loop, and the counter is decremented once before it is first
  compared with zero.
\<close>

theorem segment_loop_runs_N_minus_1:
  assumes "1 \<le> N"
  shows "iterations (run_segment_loop table indeterminate N first rest) = unat N - 1
         \<and> num_osm_nodes (run_segment_loop table indeterminate N first rest) = 0"
proof -
  from assms have "N \<noteq> 0" by auto
  then have "unat (N - 1) = unat N - 1"
    by (simp add: unat_minus_one)
  then show ?thesis
    by (simp add: run_segment_loop_def segment_loop_iterations segment_loop_exit)
qed

theorem segment_loop_runs_N_minus_1_witness:
  "(1 :: 32 word) \<le> 3
   \<and> iterations (run_segment_loop [(1, 2) \<mapsto> 72] no_segment 3 1 (segments example_input)) = 2
   \<and> num_osm_nodes (run_segment_loop [(1, 2) \<mapsto> 72] no_segment 3 1 (segments example_input)) = 0"
proof -
  have h: "(1 :: 32 word) \<le> 3" by simp
  show ?thesis
    using h segment_loop_runs_N_minus_1 [OF h, of "[(1, 2) \<mapsto> 72]" no_segment 1 "segments example_input"]
    by simp
qed

text \<open>
  With the count 0 the decrement wraps around, and the body runs \<open>2^32 - 1\<close> times on
  whatever the stream holds.
\<close>

lemma segment_loop_count_zero:
  "iterations (run_segment_loop table indeterminate 0 first rest) = 4294967295"
  by (simp add: run_segment_loop_def segment_loop_iterations unsigned_minus_1_eq_mask
      mask_eq_exp_minus_1)

subsection \<open>Claim C5\<close>

lemma read_rows_lookup:
  "read_rows rows m (a, b) =
     (case speeds_of_rows a b rows of [] \<Rightarrow> m (a, b) | speeds \<Rightarrow> Some (last speeds))"
proof (induction rows arbitrary: m)
  case Nil
  then show ?case by (simp add: speeds_of_rows_def)
next
  case (Cons row rows)
  obtain f t speed where row: "row = (f, t, speed)"
    by (cases row)
  show ?case
    unfolding row read_rows.simps Cons.IH
    by (auto simp: speeds_of_rows_def split: list.splits)
qed

text \<open>
  C5, as the code has it. The key of the table is the ordered pair (from, to) of the
  row, and a segment is looked up as (previous node, this node), in the direction the
  record lists the nodes: the override is applied exactly when the speed file has a row
  for (a, b), at the speed of the last such row, and the segment keeps its stored weight
  when there is none, whether or not the file has a row for (b, a).
\<close>

theorem lookup_key_is_the_ordered_pair:
  "load_segment_speed_lookup rows (a, b) =
     (case speeds_of_rows a b rows of [] \<Rightarrow> None | speeds \<Rightarrow> Some (last speeds))
   \<and> segment_contribution (load_segment_speed_lookup rows) a s =
     (case speeds_of_rows a (this_osm_node_id s) rows of
        [] \<Rightarrow> Some (segment_weight s)
      | speeds \<Rightarrow> new_segment_weight (segment_length s) (last speeds))"
  by (simp add: load_segment_speed_lookup_def segment_contribution_def read_rows_lookup
      split: list.splits)

text \<open>
  The claim as stated fails on a file whose only row is written against the direction
  of the segment: the row \<open>(2, 1, 72)\<close> leaves the segment \<open>(1, 2)\<close> of the example at its
  stored weight 36 (the edge at 7 + 36 + 20), where the unordered key gives it 50.
\<close>

theorem reversed_row_is_not_applied:
  "update_edge (load_segment_speed_lookup [(2, 1, 72)]) no_segment example_input =
     Some (example_edge\<lparr>weight := 63\<rparr>)
   \<and> unordered_weight (load_segment_speed_lookup [(2, 1, 72)]) example_input = 77"
proof -
  have t: "load_segment_speed_lookup [(2, 1, 72)] = [(2, 1) \<mapsto> 72]"
    by (simp add: load_segment_speed_lookup_def)
  have "spec_weight [(2, 1) \<mapsto> 72] example_input = 63"
    by (simp add: spec_weight_def spec_segments_def spec_segment_weight_def example_input_def)
  then have "update_edge [(2, 1) \<mapsto> 72] no_segment example_input = Some (example_edge\<lparr>weight := 63\<rparr>)"
    using update_edge_spec [of "[(2, 1) \<mapsto> 72]" example_input no_segment]
    by (simp add: inbuffer_example)
  moreover have "unordered_weight [(2, 1) \<mapsto> 72] example_input = 77"
    by (simp add: unordered_weight_def spec_segments_def unordered_segment_weight_def
        example_input_def)
  ultimately show ?thesis
    by (simp only: t) 
qed

subsection \<open>Claim C7\<close>

text \<open>
  C7 asks that a row with speed 0 be rejected. The loader stores it like any other row,
  and a segment that matches it is reweighted by the formula with speed 0: for the row
  \<open>(1, 2, 0)\<close> the table holds 0 at \<open>(1, 2)\<close>, the weight of the segment \<open>(1, 2)\<close> is the
  division by zero, and the example edge has no weight.
\<close>

theorem zero_speed_row_is_used:
  "load_segment_speed_lookup [(1, 2, 0)] (1, 2) = Some 0
   \<and> segment_contribution (load_segment_speed_lookup [(1, 2, 0)]) 1
       \<lparr>this_osm_node_id = 2, segment_length = 100, segment_weight = 36\<rparr> = None
   \<and> LoadEdgeExpandedGraph (Some [(1, 2, 0)]) no_segment [] [example_input] = None"
proof -
  have t: "load_segment_speed_lookup [(1, 2, 0)] = [(1, 2) \<mapsto> 0]"
    by (simp add: load_segment_speed_lookup_def)
  let ?st0 = "\<lparr>num_osm_nodes = 2, stream = segments example_input, current = no_segment,
               previous_osm_node_id = 1, new_weight = Some 0, iterations = 0\<rparr>"
  have "new_weight (segment_loop [(1, 2) \<mapsto> 0] ?st0) = None"
    by (simp add: segment_loop_step segment_loop_zero loop_body_def read_segment_def
        segment_contribution_def new_segment_weight_def add_weight_def example_input_def Let_def)
  then have "update_edge [(1, 2) \<mapsto> 0] no_segment example_input = None"
    by (simp add: update_edge_def run_segment_loop_def example_input_def)
  then show ?thesis
    by (simp add: t LoadEdgeExpandedGraph_def segment_contribution_def new_segment_weight_def)
qed

section \<open>Properties of the serializer\<close>

subsection \<open>Lists sorted by a key\<close>























subsection \<open>Claim C2\<close>


subsection \<open>Three edges\<close>



text \<open>
  With \<open>max_node_id\<close> below the largest node id far enough, the first loop writes behind
  the end of the node array: the three edges use the node ids 0, 1, 2, and with
  \<open>max_node_id = 0\<close> the array has two entries.
\<close>

lemma build_node_array_too_short: "build_node_array 0 [edge_c, edge_a, edge_b] = None"
  by (simp add: build_node_array_def max_used_node_id_def edge_a_def edge_b_def edge_c_def
      upt_rec [of 0] upt_rec [of 1] upt_rec [of 2] advance.simps Let_def)

subsection \<open>Claim C3\<close>




section \<open>Properties of the core marker and of the two drivers\<close>

subsection \<open>Claim C8\<close>

lemma fold_update_map:
  "k \<le> length u \<Longrightarrow> fold (\<lambda>i u. u[i := f i]) [0 ..< k] u = map f [0 ..< k] @ drop k u"
proof (induction k)
  case 0
  then show ?case by simp
next
  case (Suc k)
  then have "k < length (map f [0 ..< k] @ drop k u)" by simp
  with Suc show ?case
    by (simp add: list_update_append Cons_nth_drop_Suc [symmetric] upd_conv_take_nth_drop)
qed

lemma unpack_loop_map: "unpack_loop flags = map (\<lambda>b. if b then 1 else 0) flags"
proof -
  have "unpack_loop flags = map (\<lambda>i. if flags ! i then 1 else 0) [0 ..< length flags]"
    by (simp add: unpack_loop_def fold_update_map)
  also have "\<dots> = map (\<lambda>b. if b then 1 else 0) flags"
    by (rule nth_equalityI) simp_all
  finally show ?thesis .
qed

text \<open>
  C8, as the code has it. For every vector of core flags the .core file is the number of
  nodes as a 32-bit unsigned value followed by one byte per node, 1 for a core
  (uncontracted) node and 0 for any other: the flags are written unpacked, not as bits.
\<close>

theorem WriteCoreNodeMarker_writes_one_byte_per_node:
  "WriteCoreNodeMarker is_core_node =
     \<lparr>core_size = of_nat (length is_core_node),
      core_bytes = map (\<lambda>b. if b then 1 else 0) is_core_node\<rparr>"
  by (simp add: WriteCoreNodeMarker_def unpack_loop_map)

text \<open>
  The claim as stated fails on nine nodes: a bitmap has two bytes for them, the file
  has nine after its size field.
\<close>

theorem core_file_is_no_bitmap:
  "core_bytes (WriteCoreNodeMarker [True, False, True, False, False, False, False, False, True]) =
     [1, 0, 1, 0, 0, 0, 0, 0, 1]
   \<and> bitmap [True, False, True, False, False, False, False, False, True] = [5, 1]
   \<and> length (core_bytes (WriteCoreNodeMarker
        [True, False, True, False, False, False, False, False, True])) = 9"
  by (simp add: WriteCoreNodeMarker_def unpack_loop_map bitmap.simps byte_of_bits_def)

subsection \<open>Claim C6\<close>



subsection \<open>Claim C9\<close>

text \<open>
  C9, as the code has it. For every input whose parsed edge list is empty, extract
  returns the exit code 1 and has created no file but the .timestamp file, which it
  writes before it parses; when no exception ends it earlier, that file is created, the
  warning "The input data is empty, exiting." is logged, and none of the files of
  \<^verbatim>\<open>PrepareData\<close> and of the expansion is.
\<close>

theorem run_on_empty_input:
  assumes "all_edges_list x = []"
  shows "exit_code (run x) = 1
         \<and> set (files_created (run x)) \<subseteq> {timestamp_file}
         \<and> (setup_exception x = None \<and> parsing_exception x = None \<longrightarrow>
              run x = \<lparr>exit_code = 1, files_created = [timestamp_file],
                        warnings = [empty_message]\<rparr>)"
  using assms by (auto simp: run_def split: option.splits)

theorem run_on_empty_input_witness:
  "all_edges_list empty_input = []
   \<and> run empty_input =
       \<lparr>exit_code = 1, files_created = [timestamp_file], warnings = [empty_message]\<rparr>"
proof -
  have h: "all_edges_list empty_input = []"
    by (simp add: empty_input_def)
  show ?thesis
    using h run_on_empty_input [OF h] by (simp add: empty_input_def)
qed

text \<open>
  The claim as stated asks that no output file exist when extract gives up on an empty
  input: the .timestamp file does.
\<close>

theorem timestamp_is_written_before_the_check:
  "all_edges_list empty_input = []
   \<and> exit_code (run empty_input) = 1
   \<and> files_created (run empty_input) = [timestamp_file]
   \<and> files_created (run empty_input) \<noteq> []"
  by (simp add: run_def empty_input_def)

section \<open>Properties of the component labeler\<close>

text \<open>Sorting and dropping repeated edges leave the set of edges as the two loops built it.\<close>

lemma set_component_edges:
  "set (component_edges SPECIAL_NODEID input_edge_list input_nodes) =
     augmented_graph SPECIAL_NODEID input_edge_list input_nodes"
  by (auto simp: component_edges_def augmented_graph_def edges_of_edge_def edges_of_node_def
      split: if_splits)

text \<open>The two ids of a node with a reverse id are strongly connected in the graph.\<close>

lemma paired_ids_strongly_connected:
  assumes "node \<in> set input_nodes" "reverse_edge_based_node_id node \<noteq> SPECIAL_NODEID"
  shows "strongly_connected (component_edges SPECIAL_NODEID input_edge_list input_nodes)
           (forward_edge_based_node_id node) (reverse_edge_based_node_id node)"
proof -
  let ?g = "set (component_edges SPECIAL_NODEID input_edge_list input_nodes)"
  have "(forward_edge_based_node_id node, reverse_edge_based_node_id node) \<in> ?g"
    and "(reverse_edge_based_node_id node, forward_edge_based_node_id node) \<in> ?g"
    using assms unfolding set_component_edges augmented_graph_def by blast+
  then show ?thesis
    by (simp add: strongly_connected_def reaches_def r_into_trancl')
qed

text \<open>The flag of a node is the comparison of the size reported for its forward id with 1000.\<close>

lemma label_node_threshold:
  "component_is_tiny (label_node component_search node) \<longleftrightarrow>
     get_component_size component_search
       (get_component_id component_search (forward_edge_based_node_id node)) < 1000"
  by (simp add: label_node_def Let_def)

lemma example_component_edges [simp]:
  "component_edges 4294967295 [turn_0_1] [one_way, two_way] = [(0, 1), (1, 2), (2, 1)]"
  by (simp add: component_edges_def edges_of_edge_def edges_of_node_def turn_0_1_def
      one_way_def two_way_def)

lemma example_labels_components:
  "labels_components 3 [(0, 1), (1, 2), (2, 1)] example_search"
  by code_simp

lemma example_components:
  "component 3 [(0, 1), (1, 2), (2, 1)] 0 = [0]"
  "component 3 [(0, 1), (1, 2), (2, 1)] 1 = [1, 2]"
  by code_simp+

subsection \<open>Claim C4\<close>

text \<open>
  C4. \<^verbatim>\<open>FindComponents\<close> hands the component search the directed graph of the edge-based
  edges augmented, for every edge-based node whose reverse id is not the sentinel, by
  links both ways between its forward and its reverse id (which are then in one
  component), and, the search labelling the strongly connected components of that graph,
  it sets the tiny flag of every edge-based node to true if and only if the node's
  component has fewer than 1000 nodes.
\<close>

theorem FindComponents_marks_tiny_components:
  assumes "labels_components (max_edge_id + 1)
             (component_edges SPECIAL_NODEID input_edge_list input_nodes)
             (tarjan (max_edge_id + 1) (component_edges SPECIAL_NODEID input_edge_list input_nodes))"
    and "\<forall>node \<in> set input_nodes. forward_edge_based_node_id node \<le> max_edge_id"
  shows "set (component_edges SPECIAL_NODEID input_edge_list input_nodes) =
           augmented_graph SPECIAL_NODEID input_edge_list input_nodes
         \<and> (\<forall>node \<in> set input_nodes. reverse_edge_based_node_id node \<noteq> SPECIAL_NODEID \<longrightarrow>
              strongly_connected (component_edges SPECIAL_NODEID input_edge_list input_nodes)
                (forward_edge_based_node_id node) (reverse_edge_based_node_id node))
         \<and> FindComponents SPECIAL_NODEID tarjan max_edge_id input_edge_list input_nodes =
             map (\<lambda>node. node
                    \<lparr>component_is_tiny :=
                       length (component (max_edge_id + 1)
                                 (component_edges SPECIAL_NODEID input_edge_list input_nodes)
                                 (forward_edge_based_node_id node)) < 1000,
                     component_id :=
                       1 + get_component_id
                             (tarjan (max_edge_id + 1)
                                (component_edges SPECIAL_NODEID input_edge_list input_nodes))
                             (forward_edge_based_node_id node)\<rparr>)
               input_nodes"
proof -
  let ?edges = "component_edges SPECIAL_NODEID input_edge_list input_nodes"
  let ?search = "tarjan (max_edge_id + 1) ?edges"
  have size: "get_component_size ?search (get_component_id ?search (forward_edge_based_node_id node))
              = length (component (max_edge_id + 1) ?edges (forward_edge_based_node_id node))"
    if "node \<in> set input_nodes" for node
  proof -
    from that assms(2) have "forward_edge_based_node_id node \<in> set [0 ..< max_edge_id + 1]"
      by auto
    with assms(1) show ?thesis
      unfolding labels_components_def by blast
  qed
  have "FindComponents SPECIAL_NODEID tarjan max_edge_id input_edge_list input_nodes =
        map (label_node ?search) input_nodes"
    by (simp add: FindComponents_def Let_def)
  also have "\<dots> = map (\<lambda>node. node
                    \<lparr>component_is_tiny :=
                       length (component (max_edge_id + 1) ?edges
                                 (forward_edge_based_node_id node)) < 1000,
                     component_id :=
                       1 + get_component_id ?search (forward_edge_based_node_id node)\<rparr>)
               input_nodes"
    unfolding label_node_def Let_def by (rule map_cong) (simp_all only: size)
  finally show ?thesis
    using set_component_edges paired_ids_strongly_connected by blast
qed

theorem FindComponents_marks_tiny_components_witness:
  "labels_components 3 [(0, 1), (1, 2), (2, 1)] example_search
   \<and> component 3 [(0, 1), (1, 2), (2, 1)] 0 = [0]
   \<and> component 3 [(0, 1), (1, 2), (2, 1)] 1 = [1, 2]
   \<and> FindComponents 4294967295 (\<lambda>n edges. example_search) 2 [turn_0_1] [one_way, two_way] =
       [one_way\<lparr>component_is_tiny := True, component_id := 2\<rparr>,
        two_way\<lparr>component_is_tiny := True, component_id := 1\<rparr>]"
proof -
  have three: "(2 :: nat) + 1 = 3"
    by simp
  have contract: "labels_components (2 + 1) (component_edges 4294967295 [turn_0_1] [one_way, two_way])
       ((\<lambda>n edges. example_search) (2 + 1) (component_edges 4294967295 [turn_0_1] [one_way, two_way]))"
    unfolding three example_component_edges by (rule example_labels_components)
  have range: "\<forall>node \<in> set [one_way, two_way]. forward_edge_based_node_id node \<le> 2"
    by (simp add: one_way_def two_way_def)
  have ids: "forward_edge_based_node_id one_way = 0" "forward_edge_based_node_id two_way = 1"
    by (simp_all add: one_way_def two_way_def)
  have tiny: "length [0 :: nat] < 1000 \<longleftrightarrow> True" "length [1 :: nat, 2] < 1000 \<longleftrightarrow> True"
    by simp_all
  have labels: "1 + get_component_id example_search 0 = 2" "1 + get_component_id example_search 1 = 1"
    by (simp_all add: example_search_def)
  have "FindComponents 4294967295 (\<lambda>n edges. example_search) 2 [turn_0_1] [one_way, two_way] =
       [one_way\<lparr>component_is_tiny := True, component_id := 2\<rparr>,
        two_way\<lparr>component_is_tiny := True, component_id := 1\<rparr>]"
    using FindComponents_marks_tiny_components [OF contract range, THEN conjunct2, THEN conjunct2]
    by (simp only: three example_component_edges list.map ids example_components tiny labels)
  then show ?thesis
    using example_labels_components example_components by simp
qed

end
